theory Spec2Isabelle
  imports Main "HOL-Library.Word"
begin

section \<open>Node.js values shared by the commands\<close>

text \<open>
  The two commands of the repository, \<^verbatim>\<open>lib/commands/kv/fetchvalue.js\<close> and the
  ListBuckets command, are JavaScript running on Node.js. A \<^verbatim>\<open>Buffer\<close> is a
  sequence of bytes; a JavaScript number that holds a length or a message code is an
  \<open>int\<close>; a value that may be \<^verbatim>\<open>null\<close> is an \<open>option\<close> with \<open>None\<close> for
  \<^verbatim>\<open>null\<close>; a thrown exception is the \<open>Inl\<close> branch of a sum.
\<close>

type_synonym byte = "8 word"
type_synonym Buffer = "byte list"

datatype jserror =
    ReferenceError string
  | TypeError string
  | RangeError string
  | ValidationError string
  | ListError

text \<open>
  \<^verbatim>\<open>new Buffer(n)\<close> allocates \<open>n\<close> bytes without clearing them: the contents are
  whatever memory \<open>mem\<close> held.
\<close>

definition new_Buffer :: "nat \<Rightarrow> (nat \<Rightarrow> byte) \<Rightarrow> Buffer" where
  "new_Buffer n mem = map mem [0..<n]"

text \<open>
  \<^verbatim>\<open>buf.writeUInt8(value, offset)\<close> and \<^verbatim>\<open>buf.writeInt32BE(value, offset)\<close>
  with Node's checks (\<^verbatim>\<open>noAssert\<close> is not passed): the value must lie in the range of
  the field and the field must lie inside the buffer, otherwise the call throws. The
  32-bit write stores the two's complement of the value, most significant byte first.
\<close>

definition writeUInt8 :: "Buffer \<Rightarrow> int \<Rightarrow> nat \<Rightarrow> jserror + Buffer" where
  "writeUInt8 buf v offset =
     (if v > 0xff \<or> v < 0 then Inl (TypeError ''value is out of bounds'')
      else if offset + 1 > length buf then Inl (RangeError ''index out of range'')
      else Inr (buf[offset := word_of_int v]))"

definition writeInt32BE :: "Buffer \<Rightarrow> int \<Rightarrow> nat \<Rightarrow> jserror + Buffer" where
  "writeInt32BE buf v offset =
     (if v > 0x7fffffff \<or> v < - 0x80000000 then Inl (TypeError ''value is out of bounds'')
      else if offset + 4 > length buf then Inl (RangeError ''index out of range'')
      else Inr (buf[offset := word_of_int (v div 2 ^ 24),
                    offset + 1 := word_of_int (v div 2 ^ 16),
                    offset + 2 := word_of_int (v div 2 ^ 8),
                    offset + 3 := word_of_int v]))"

section \<open>FetchValue\<close>

subsection \<open>The request message and the validated options\<close>

text \<open>
  \<^verbatim>\<open>RpbGetReq\<close> is the protobuf request built by the constructor through its setters;
  a field that was never set is \<^verbatim>\<open>null\<close>. Its serialisation
  (\<^verbatim>\<open>encode().toBuffer()\<close>) belongs to the protobuf library and is the parameter
  \<open>encode\<close> of \<open>getRiakMessage\<close> below.
\<close>

record RpbGetReq =
  req_bucket :: "Buffer option"
  req_type :: "Buffer option"
  req_key :: "Buffer option"
  req_r :: "int option"
  req_pr :: "int option"
  req_notfound_ok :: "bool option"
  req_basic_quorum :: "bool option"
  req_deletedvclock :: "bool option"
  req_head :: "bool option"
  req_if_modified :: "Buffer option"
  req_timeout :: "int option"

definition new_RpbGetReq :: RpbGetReq where
  "new_RpbGetReq =
     \<lparr>req_bucket = None, req_type = None, req_key = None, req_r = None, req_pr = None,
      req_notfound_ok = None, req_basic_quorum = None, req_deletedvclock = None,
      req_head = None, req_if_modified = None, req_timeout = None\<rparr>"

text \<open>
  The options object that \<^verbatim>\<open>Joi.validate\<close> hands to its callback. The constructor
  asks \<^verbatim>\<open>hasOwnProperty\<close> for the optional ones: \<open>None\<close> is a missing property,
  \<open>Some v\<close> a property with value \<open>v\<close> (which for \<^verbatim>\<open>ifNotModified\<close> and
  \<^verbatim>\<open>timeout\<close> may itself be \<^verbatim>\<open>null\<close>).
\<close>

record 'cb fetch_options =
  opt_bucket :: string
  opt_bucketType :: string
  opt_key :: string
  opt_r :: "int option"
  opt_pr :: "int option"
  opt_notFoundOk :: "bool option"
  opt_useBasicQuorum :: "bool option"
  opt_returnDeletedVClock :: "bool option"
  opt_headOnly :: "bool option"
  opt_ifNotModified :: "Buffer option option"
  opt_timeout :: "int option option"
  opt_callback :: 'cb

record 'cb fetch_value =
  protobuf :: RpbGetReq
  callback :: 'cb
  bucket :: string
  key :: string
  bucketType :: string
  streaming :: bool
  header :: Buffer
  remainingTries :: int

subsection \<open>The constructor\<close>

text \<open>
  \<^verbatim>\<open>function FetchValue(options)\<close>. \<open>Joi_validate\<close> is the library call
  \<^verbatim>\<open>Joi.validate(options, schema, ...)\<close>: it yields the error or the validated
  options its callback receives. \<open>Buffer_of\<close> is \<^verbatim>\<open>new Buffer(string)\<close>,
  \<open>requestCode\<close> the module constant \<^verbatim>\<open>getCodeFor('RpbGetReq')\<close>, and
  \<open>mem\<close> the memory the five header bytes are allocated from.
\<close>

definition set_if_present :: "'a option \<Rightarrow> ('a \<Rightarrow> RpbGetReq \<Rightarrow> RpbGetReq) \<Rightarrow> RpbGetReq \<Rightarrow> RpbGetReq" where
  "set_if_present p setter pb = (case p of None \<Rightarrow> pb | Some v \<Rightarrow> setter v pb)"

definition build_protobuf :: "(string \<Rightarrow> Buffer) \<Rightarrow> 'cb fetch_options \<Rightarrow> RpbGetReq" where
  "build_protobuf Buffer_of opts =
     (let pb = new_RpbGetReq;
          pb = pb\<lparr>req_bucket := Some (Buffer_of (opt_bucket opts))\<rparr>;
          pb = pb\<lparr>req_type := Some (Buffer_of (opt_bucketType opts))\<rparr>;
          pb = pb\<lparr>req_key := Some (Buffer_of (opt_key opts))\<rparr>;
          pb = set_if_present (opt_r opts) (\<lambda>v p. p\<lparr>req_r := Some v\<rparr>) pb;
          pb = set_if_present (opt_pr opts) (\<lambda>v p. p\<lparr>req_pr := Some v\<rparr>) pb;
          pb = set_if_present (opt_notFoundOk opts) (\<lambda>v p. p\<lparr>req_notfound_ok := Some v\<rparr>) pb;
          pb = set_if_present (opt_useBasicQuorum opts) (\<lambda>v p. p\<lparr>req_basic_quorum := Some v\<rparr>) pb;
          pb = set_if_present (opt_returnDeletedVClock opts) (\<lambda>v p. p\<lparr>req_deletedvclock := Some v\<rparr>) pb;
          pb = set_if_present (opt_headOnly opts) (\<lambda>v p. p\<lparr>req_head := Some v\<rparr>) pb;
          pb = set_if_present (opt_ifNotModified opts) (\<lambda>v p. p\<lparr>req_if_modified := v\<rparr>) pb;
          pb = set_if_present (opt_timeout opts) (\<lambda>v p. p\<lparr>req_timeout := v\<rparr>) pb
      in pb)"

definition FetchValue ::
  "('o \<Rightarrow> jserror + 'cb fetch_options) \<Rightarrow> (string \<Rightarrow> Buffer) \<Rightarrow> int \<Rightarrow> (nat \<Rightarrow> byte) \<Rightarrow> 'o
     \<Rightarrow> jserror + 'cb fetch_value" where
  "FetchValue Joi_validate Buffer_of requestCode mem options =
     (case Joi_validate options of
        Inl err \<Rightarrow> Inl err
      | Inr opts \<Rightarrow>
          (case writeUInt8 (new_Buffer 5 mem) requestCode 4 of
             Inl err \<Rightarrow> Inl err
           | Inr hdr \<Rightarrow>
               Inr \<lparr>protobuf = build_protobuf Buffer_of opts,
                    callback = opt_callback opts,
                    bucket = opt_bucket opts,
                    key = opt_key opts,
                    bucketType = opt_bucketType opts,
                    streaming = False,
                    header = hdr,
                    remainingTries = 1\<rparr>))"

subsection \<open>Encoding the outgoing frame\<close>

text \<open>
  \<^verbatim>\<open>getRiakMessage\<close> serialises the request, writes its length plus one into the
  first four bytes of the instance's header buffer and returns both buffers. The header
  is the instance's own buffer, so the write is a change of the instance: the function
  returns the message and the instance after the call.
\<close>

record RiakMessage =
  msg_protobuf :: Buffer
  msg_header :: Buffer

definition getRiakMessage ::
  "(RpbGetReq \<Rightarrow> Buffer) \<Rightarrow> 'cb fetch_value \<Rightarrow> jserror + (RiakMessage \<times> 'cb fetch_value)" where
  "getRiakMessage encode self =
     (let encoded = encode (protobuf self) in
      case writeInt32BE (header self) (int (length encoded) + 1) 0 of
        Inl err \<Rightarrow> Inl err
      | Inr hdr \<Rightarrow>
          Inr (\<lparr>msg_protobuf = encoded, msg_header = hdr\<rparr>, self\<lparr>header := hdr\<rparr>))"

text \<open>
  \<^verbatim>\<open>getExpectedResponseCode\<close> returns the module constant
  \<^verbatim>\<open>expectedCode = getCodeFor('RpbGetResp')\<close>; \<open>getCodeFor\<close> is the code table of
  the protobuf module.
\<close>

definition expectedCode :: "(string \<Rightarrow> int) \<Rightarrow> int" where
  "expectedCode getCodeFor = getCodeFor ''RpbGetResp''"

definition getExpectedResponseCode :: "(string \<Rightarrow> int) \<Rightarrow> 'cb fetch_value \<Rightarrow> int" where
  "getExpectedResponseCode getCodeFor self = expectedCode getCodeFor"

subsection \<open>Responses\<close>

text \<open>
  \<^verbatim>\<open>RiakMeta\<close> (\<^verbatim>\<open>riakmeta.js\<close>) is a class of the repository that the command only
  uses: \<open>new_RiakMeta\<close> is a fresh instance and \<open>extractMetaFromRpbContent\<close> its
  static method, both parameters of \<open>onSuccess\<close>. The record names the four fields
  the command assigns and keeps everything else of the object in \<open>meta_rest\<close>.
\<close>

record 'm RiakMeta =
  isTombstone :: bool
  meta_key :: string
  meta_bucket :: string
  meta_bucketType :: string
  meta_rest :: 'm

text \<open>One \<^verbatim>\<open>{ value: ..., meta: ... }\<close> pair.\<close>

record 'm riak_object =
  obj_value :: Buffer
  obj_meta :: "'m RiakMeta"

text \<open>
  A JavaScript array made by \<^verbatim>\<open>new Array(n)\<close> has \<open>n\<close> empty slots until they are
  assigned: an array is a list of optional elements, \<open>None\<close> for a slot never written.
\<close>

type_synonym 'a js_array = "'a option list"

definition new_Array :: "nat \<Rightarrow> 'a js_array" where
  "new_Array n = replicate n None"

text \<open>
  Modelled from the spec: \<^verbatim>\<open>KvResponseBase\<close> (\<^verbatim>\<open>kvresponsebase.js\<close>) is not among
  the sources. \<^verbatim>\<open>Response\<close> hands it its third argument, documented as the
  ``array of value/meta pairs from Riak''; the base class is taken to keep that array as
  the response's values, \<open>resp_values\<close>.
\<close>

record 'm KvResponseBase =
  resp_values :: "'m riak_object js_array"

record 'm Response = "'m KvResponseBase" +
  notFound :: bool
  unchanged :: bool

definition new_Response :: "bool \<Rightarrow> bool \<Rightarrow> 'm riak_object js_array \<Rightarrow> 'm Response" where
  "new_Response notFound' unchanged' rawResponse =
     \<lparr>resp_values = rawResponse, notFound = notFound', unchanged = unchanged'\<rparr>"

definition isNotFound :: "'m Response \<Rightarrow> bool" where
  "isNotFound this = notFound this"

definition isUnchanged :: "'m Response \<Rightarrow> bool" where
  "isUnchanged this = unchanged this"

text \<open>
  The decoded \<^verbatim>\<open>RpbGetResp\<close> as \<open>onSuccess\<close> reads it: \<^verbatim>\<open>getContent()\<close> and
  \<^verbatim>\<open>getVclock()\<close>; of each \<^verbatim>\<open>RpbContent\<close> it reads
  \<^verbatim>\<open>getValue().toBuffer()\<close> and passes the whole content on to \<^verbatim>\<open>RiakMeta\<close>.
  The vclock is an optional field of the message: \<^verbatim>\<open>getVclock()\<close> is \<^verbatim>\<open>null\<close>
  (\<open>None\<close>) when the server left it out, as it does when it answers a request that
  carries \<^verbatim>\<open>if_modified\<close> with nothing but \<^verbatim>\<open>unchanged\<close>. The value of a content
  is a required field.
\<close>

record 'c RpbContent =
  content_value :: Buffer
  content_rest :: 'c

record 'c RpbGetResp =
  content :: "'c RpbContent list"
  vclock :: "Buffer option"

record RpbErrorResp =
  errmsg :: Buffer
  errcode :: int

text \<open>
  The completion callback is the caller's function. A call of it is recorded as the
  callback together with the arguments it received, in order.
\<close>

datatype 'm jsval =
    JNull
  | JBool bool
  | JString string
  | JArray "'m riak_object js_array"
  | JResponse "'m Response"

type_synonym ('cb, 'm) call = "'cb \<times> 'm jsval list"

subsection \<open>Handling a response\<close>

text \<open>The \<^verbatim>\<open>for\<close> loop of \<open>onSuccess\<close>: it fills \<open>values\<close> from index \<open>i\<close> on.\<close>

function fill_values ::
  "('c RpbContent \<Rightarrow> Buffer \<Rightarrow> string \<Rightarrow> string \<Rightarrow> string \<Rightarrow> 'm RiakMeta) \<Rightarrow> 'cb fetch_value
     \<Rightarrow> 'c RpbContent list \<Rightarrow> Buffer \<Rightarrow> nat \<Rightarrow> 'm riak_object js_array \<Rightarrow> 'm riak_object js_array" where
  "fill_values extractMetaFromRpbContent self pbContentArray vclock' i vals =
     (if i < length pbContentArray then
        (let riakMeta = extractMetaFromRpbContent (pbContentArray ! i) vclock'
                          (bucketType self) (bucket self) (key self);
             riakValue = content_value (pbContentArray ! i)
         in fill_values extractMetaFromRpbContent self pbContentArray vclock' (Suc i)
              (vals[i := Some \<lparr>obj_value = riakValue, obj_meta = riakMeta\<rparr>]))
      else vals)"
  by pat_completeness auto
termination
  by (relation "measure (\<lambda>(e, s, cs, v, i, vals). length cs - i)") auto

declare fill_values.simps [simp del]

text \<open>
  \<^verbatim>\<open>onSuccess(rpbGetResp)\<close>: the calls of the callback it makes and the value it
  returns, or the exception it throws. \<open>None\<close> is the \<^verbatim>\<open>null\<close> response, and
  \<^verbatim>\<open>new Buffer(0)\<close> the empty buffer. For a response that is not \<^verbatim>\<open>null\<close> the
  function calls \<^verbatim>\<open>getVclock().toBuffer()\<close> before it looks at the content: on a
  \<^verbatim>\<open>null\<close> vclock that call throws a \<^verbatim>\<open>TypeError\<close>, and the function ends there,
  with no call of the callback and no value returned.
\<close>

definition onSuccess ::
  "'m RiakMeta \<Rightarrow> ('c RpbContent \<Rightarrow> Buffer \<Rightarrow> string \<Rightarrow> string \<Rightarrow> string \<Rightarrow> 'm RiakMeta)
     \<Rightarrow> 'cb fetch_value \<Rightarrow> 'c RpbGetResp option \<Rightarrow> jserror + (('cb, 'm) call list \<times> bool)" where
  "onSuccess new_RiakMeta extractMetaFromRpbContent self rpbGetResp =
     (case rpbGetResp of
        None \<Rightarrow> Inr ([(callback self, [JNull, JResponse (new_Response True False [])])], True)
      | Some resp \<Rightarrow>
          (let pbContentArray = content resp in
           case vclock resp of
             None \<Rightarrow> Inl (TypeError ''Cannot read property toBuffer of null'')
           | Some vclock' \<Rightarrow>
               if length pbContentArray = 0 then
                 (let riakMeta = new_RiakMeta;
                      riakValue = [];
                      riakMeta = riakMeta\<lparr>isTombstone := True\<rparr>;
                      riakMeta = riakMeta\<lparr>meta_key := key self\<rparr>;
                      riakMeta = riakMeta\<lparr>meta_bucket := bucket self\<rparr>;
                      riakMeta = riakMeta\<lparr>meta_bucketType := bucketType self\<rparr>
                  in Inr ([(callback self,
                            [JBool False, JBool False,
                             JArray [Some \<lparr>obj_value = riakValue, obj_meta = riakMeta\<rparr>]])],
                          True))
               else
                 (let vals = new_Array (length pbContentArray);
                      vals = fill_values extractMetaFromRpbContent self pbContentArray vclock' 0 vals
                  in Inr ([(callback self, [JNull, JResponse (new_Response False False vals)])],
                          True))))"

definition onError :: "'cb fetch_value \<Rightarrow> string \<Rightarrow> ('cb, 'm) call list" where
  "onError self msg = [(callback self, [JString msg, JNull])]"

text \<open>\<open>toString_utf8\<close> is \<^verbatim>\<open>toString('utf8')\<close> of the byte buffer library.\<close>

definition onRiakError ::
  "(Buffer \<Rightarrow> string) \<Rightarrow> 'cb fetch_value \<Rightarrow> RpbErrorResp \<Rightarrow> ('cb, 'm) call list" where
  "onRiakError toString_utf8 self rpbErrorResp = onError self (toString_utf8 (errmsg rpbErrorResp))"

section \<open>ListBuckets\<close>

subsection \<open>Options and construction\<close>

text \<open>
  The options as the caller passes them (a property may be missing) and as the command
  keeps them in \<^verbatim>\<open>this.options\<close> after validation against
  \<^verbatim>\<open>schema\<close>: \<^verbatim>\<open>allowListing\<close> defaults to \<^verbatim>\<open>false\<close>, \<^verbatim>\<open>bucketType\<close> to
  \<^verbatim>\<open>'default'\<close>, \<^verbatim>\<open>stream\<close> to \<^verbatim>\<open>true\<close> and \<^verbatim>\<open>timeout\<close> to \<^verbatim>\<open>null\<close>.
\<close>

record list_raw_options =
  raw_allowListing :: "bool option"
  raw_bucketType :: "string option"
  raw_stream :: "bool option"
  raw_timeout :: "int option"

record list_options =
  allowListing :: bool
  list_bucketType :: string
  stream :: bool
  timeout :: "int option"

definition schema :: "list_raw_options \<Rightarrow> list_options" where
  "schema raw =
     \<lparr>allowListing = (case raw_allowListing raw of None \<Rightarrow> False | Some b \<Rightarrow> b),
      list_bucketType = (case raw_bucketType raw of None \<Rightarrow> ''default'' | Some t \<Rightarrow> t),
      stream = (case raw_stream raw of None \<Rightarrow> True | Some b \<Rightarrow> b),
      timeout = (case raw_timeout raw of None \<Rightarrow> None | Some n \<Rightarrow> Some n)\<rparr>"

text \<open>
  The instance: \<^verbatim>\<open>this.options\<close>, \<^verbatim>\<open>this._callback\<close> and \<^verbatim>\<open>this.buckets\<close>,
  which exists only when the constructor created it (\<open>None\<close> is
  \<^verbatim>\<open>undefined\<close>).
\<close>

record 'cb list_buckets =
  options :: list_options
  list_callback :: 'cb
  buckets :: "string js_array option"

text \<open>
  Modelled from the spec: \<^verbatim>\<open>CommandBase\<close> (\<^verbatim>\<open>commandbase.js\<close>) is not among the
  sources. Its constructor is taken to keep the callback as \<^verbatim>\<open>this._callback\<close>, and
  its \<^verbatim>\<open>validateOptions(options, schema)\<close> to store as \<^verbatim>\<open>this.options\<close> the
  options with the schema's defaults filled in; the options are typed, so validation
  itself does not fail.
\<close>

definition validateOptions ::
  "list_raw_options \<Rightarrow> (list_raw_options \<Rightarrow> list_options) \<Rightarrow> list_options" where
  "validateOptions raw schema' = schema' raw"

text \<open>\<^verbatim>\<open>function ListBuckets(options, callback)\<close>.\<close>

definition ListBuckets :: "list_raw_options \<Rightarrow> 'cb \<Rightarrow> jserror + 'cb list_buckets" where
  "ListBuckets options' callback' =
     (let self = \<lparr>options = validateOptions options' schema,
                  list_callback = callback', buckets = None\<rparr>;
          self = (if \<not> stream (options self) then self\<lparr>buckets := Some []\<rparr> else self)
      in if \<not> allowListing (options self) then Inl ListError else Inr self)"

subsection \<open>Handling a response frame\<close>

text \<open>
  The decoded \<^verbatim>\<open>RpbListBucketsResp\<close>: the bucket names as bytes and the optional
  \<^verbatim>\<open>done\<close> flag (\<open>None\<close> when the frame does not carry it). \<open>truthy\<close> is
  JavaScript's reading of such a value as a condition.
\<close>

record RpbListBucketsResp =
  resp_buckets :: "Buffer list"
  resp_done :: "bool option"

definition truthy :: "bool option \<Rightarrow> bool" where
  "truthy d = (case d of None \<Rightarrow> False | Some b \<Rightarrow> b)"

text \<open>What the callback receives: \<^verbatim>\<open>null\<close>, or \<^verbatim>\<open>{ buckets: ..., done: ... }\<close>.\<close>

record list_response =
  res_buckets :: "string js_array"
  res_done :: "bool option"

datatype list_arg = LNull | LResponse list_response

type_synonym 'cb list_call = "'cb \<times> list_arg list"

text \<open>The \<^verbatim>\<open>for\<close> loop that decodes the names into \<open>bucketsToSend\<close>.\<close>

function decode_buckets ::
  "(Buffer \<Rightarrow> string) \<Rightarrow> Buffer list \<Rightarrow> nat \<Rightarrow> string js_array \<Rightarrow> string js_array" where
  "decode_buckets toString_utf8 bs i bucketsToSend =
     (if i < length bs then
        decode_buckets toString_utf8 bs (Suc i) (bucketsToSend[i := Some (toString_utf8 (bs ! i))])
      else bucketsToSend)"
  by pat_completeness auto
termination
  by (relation "measure (\<lambda>(t, bs, i, out). length bs - i)") auto

declare decode_buckets.simps [simp del]

text \<open>
  \<^verbatim>\<open>ListBuckets.prototype.onSuccess\<close>: the value it returns, the calls of the callback
  it makes and the instance after the call. \<^verbatim>\<open>Array.prototype.push.apply\<close> on a
  \<^verbatim>\<open>this.buckets\<close> that was never created throws.
\<close>

definition ListBuckets_onSuccess ::
  "(Buffer \<Rightarrow> string) \<Rightarrow> 'cb list_buckets \<Rightarrow> RpbListBucketsResp
     \<Rightarrow> jserror + (bool option \<times> 'cb list_call list \<times> 'cb list_buckets)" where
  "ListBuckets_onSuccess toString_utf8 self rpbListBucketsResp =
     (let bucketsToSend = new_Array (length (resp_buckets rpbListBucketsResp));
          bucketsToSend =
            (if length (resp_buckets rpbListBucketsResp) \<noteq> 0
             then decode_buckets toString_utf8 (resp_buckets rpbListBucketsResp) 0 bucketsToSend
             else bucketsToSend)
      in if stream (options self) then
           Inr (resp_done rpbListBucketsResp,
                [(list_callback self,
                  [LNull, LResponse \<lparr>res_buckets = bucketsToSend,
                                      res_done = resp_done rpbListBucketsResp\<rparr>])],
                self)
         else
           (case buckets self of
              None \<Rightarrow> Inl (TypeError ''push.apply called on undefined'')
            | Some acc \<Rightarrow>
                (let self = self\<lparr>buckets := Some (acc @ bucketsToSend)\<rparr>
                 in if truthy (resp_done rpbListBucketsResp) then
                      Inr (resp_done rpbListBucketsResp,
                           [(list_callback self,
                             [LNull, LResponse \<lparr>res_buckets = acc @ bucketsToSend,
                                                 res_done = resp_done rpbListBucketsResp\<rparr>])],
                           self)
                    else Inr (resp_done rpbListBucketsResp, [], self))))"

text \<open>
  Modelled from the spec: the connection's read path is not among the sources. Each
  decoded frame of the expected code is handed to the in-flight command; while the
  command's answer says that more will follow the connection stays bound to it, and once
  it says complete the command is released and gets no further frame. \<open>deliver\<close>
  hands a sequence of frames to a ListBuckets command in this way and collects the calls
  of the callback.
\<close>

fun deliver ::
  "(Buffer \<Rightarrow> string) \<Rightarrow> 'cb list_buckets \<Rightarrow> RpbListBucketsResp list
     \<Rightarrow> jserror + ('cb list_call list \<times> 'cb list_buckets)" where
  "deliver toString_utf8 self [] = Inr ([], self)"
| "deliver toString_utf8 self (frame # frames) =
     (case ListBuckets_onSuccess toString_utf8 self frame of
        Inl err \<Rightarrow> Inl err
      | Inr (finished, calls, self') \<Rightarrow>
          if truthy finished then Inr (calls, self')
          else (case deliver toString_utf8 self' frames of
                  Inl err \<Rightarrow> Inl err
                | Inr (calls', self'') \<Rightarrow> Inr (calls @ calls', self'')))"

text \<open>
  The states a command can be in when a frame arrives: the one the constructor left it
  in, and every state a call of \<open>onSuccess\<close> leaves it in.
\<close>

inductive reachable :: "(Buffer \<Rightarrow> string) \<Rightarrow> 'cb list_buckets \<Rightarrow> bool"
  for toString_utf8 :: "Buffer \<Rightarrow> string" where
  constructed: "ListBuckets options' callback' = Inr self \<Longrightarrow> reachable toString_utf8 self"
| handled: "reachable toString_utf8 self \<Longrightarrow>
     ListBuckets_onSuccess toString_utf8 self frame = Inr (finished, calls, self') \<Longrightarrow>
     reachable toString_utf8 self'"

section \<open>Loading the FetchValue module\<close>

text \<open>
  Whether a name is bound when it is read is a property of the program text, so the
  top level of \<^verbatim>\<open>fetchvalue.js\<close> is written down as syntax: the expressions that
  are evaluated while the module loads, in source order. A function expression or
  declaration only creates a closure; its body does not run at load time and is left
  out.
\<close>

datatype expr =
    Ident string
  | StringLit string
  | NullLit
  | BoolLit bool
  | Member expr string
  | Call expr "expr list"
  | ObjectLit "(string \<times> expr) list"
  | FunctionExpr

datatype stmt =
    VarDecl string expr
  | FunctionDecl string
  | AssignMember expr string expr
  | ExprStmt expr

text \<open>
  Evaluation looks every identifier up in the scope; reading one that is not bound throws
  a \<^verbatim>\<open>ReferenceError\<close>. Operands are evaluated left to right: the callee before
  the arguments, the properties of an object literal in order. Calls into the required
  libraries are taken to return normally, the most a caller can hope for, and their
  results are not looked at.
\<close>

fun eval :: "string list \<Rightarrow> expr \<Rightarrow> jserror + unit"
  and eval_args :: "string list \<Rightarrow> expr list \<Rightarrow> jserror + unit"
  and eval_props :: "string list \<Rightarrow> (string \<times> expr) list \<Rightarrow> jserror + unit" where
  "eval scope (Ident x) = (if x \<in> set scope then Inr () else Inl (ReferenceError x))"
| "eval scope (StringLit s) = Inr ()"
| "eval scope NullLit = Inr ()"
| "eval scope (BoolLit b) = Inr ()"
| "eval scope (Member e p) = eval scope e"
| "eval scope (Call f args) =
     (case eval scope f of Inl err \<Rightarrow> Inl err | Inr u \<Rightarrow> eval_args scope args)"
| "eval scope (ObjectLit props) = eval_props scope props"
| "eval scope FunctionExpr = Inr ()"
| "eval_args scope [] = Inr ()"
| "eval_args scope (e # es) =
     (case eval scope e of Inl err \<Rightarrow> Inl err | Inr u \<Rightarrow> eval_args scope es)"
| "eval_props scope [] = Inr ()"
| "eval_props scope ((k, e) # ps) =
     (case eval scope e of Inl err \<Rightarrow> Inl err | Inr u \<Rightarrow> eval_props scope ps)"

fun exec :: "string list \<Rightarrow> stmt \<Rightarrow> jserror + unit" where
  "exec scope (VarDecl x e) = eval scope e"
| "exec scope (FunctionDecl f) = Inr ()"
| "exec scope (AssignMember target p e) =
     (case eval scope target of Inl err \<Rightarrow> Inl err | Inr u \<Rightarrow> eval scope e)"
| "exec scope (ExprStmt e) = eval scope e"

fun run :: "string list \<Rightarrow> stmt list \<Rightarrow> jserror + unit" where
  "run scope [] = Inr ()"
| "run scope (s # ss) = (case exec scope s of Inl err \<Rightarrow> Inl err | Inr u \<Rightarrow> run scope ss)"

text \<open>
  \<^verbatim>\<open>var\<close> and function declarations are hoisted: their names are bound in the whole
  module, whatever the order. Node wraps a module in a function with five parameters.
\<close>

fun declared :: "stmt list \<Rightarrow> string list" where
  "declared [] = []"
| "declared (VarDecl x e # ss) = x # declared ss"
| "declared (FunctionDecl f # ss) = f # declared ss"
| "declared (s # ss) = declared ss"

definition module_wrapper :: "string list" where
  "module_wrapper = [''exports'', ''require'', ''module'', ''__filename'', ''__dirname'']"

definition method_call :: "expr \<Rightarrow> string \<Rightarrow> expr list \<Rightarrow> expr" where
  "method_call receiver name args = Call (Member receiver name) args"

definition require :: "string \<Rightarrow> expr" where
  "require path = Call (Ident ''require'') [StringLit path]"

text \<open>Lines 178 to 191: the initialiser of \<^verbatim>\<open>schema\<close>.\<close>

definition schema_init :: expr where
  "schema_init =
     method_call (method_call (Ident ''Joi'') ''object'' []) ''keys'' [ObjectLit [
       (''bucket'', method_call (method_call (Ident ''joi'') ''string'' []) ''required'' []),
       (''bucketType'', method_call (method_call (Ident ''joi'') ''string'' []) ''default'' [StringLit ''default'']),
       (''key'', method_call (method_call (Ident ''joi'') ''string'' []) ''required'' []),
       (''r'', method_call (method_call (Ident ''joi'') ''number'' []) ''optional'' []),
       (''pr'', method_call (method_call (Ident ''joi'') ''numer'' []) ''optional'' []),
       (''notFoundOk'', method_call (method_call (Ident ''joi'') ''boolean'' []) ''optional'' []),
       (''useBasicQuorum'', method_call (method_call (Ident ''joi'') ''boolean'' []) ''optional'' []),
       (''returnDeletedVClock'', method_call (method_call (Ident ''joi'') ''boolean'' []) ''default'' [BoolLit False]),
       (''headOnly'', method_call (method_call (Ident ''joi'') ''boolean'' []) ''default'' [BoolLit False]),
       (''ifNotModified'', method_call (method_call (Ident ''joi'') ''binary'' []) ''default'' [NullLit]),
       (''timeout'', method_call (method_call (Ident ''joi'') ''number'' []) ''default'' [NullLit]),
       (''callback'', method_call (method_call (Ident ''joi'') ''func'' []) ''required'' [])]]"

text \<open>The top level of the module, statement by statement.\<close>

definition fetchvalue_js :: "stmt list" where
  "fetchvalue_js =
    [VarDecl ''RpbGetReq''
       (method_call (require ''../../protobuf/riakprotobuf'') ''getProtoFor'' [StringLit ''RpbGetReq'']),
     VarDecl ''requestCode''
       (method_call (require ''../../protobuf/riakprotobuf'') ''getCodeFor'' [StringLit ''RpbGetReq'']),
     VarDecl ''expectedCode''
       (method_call (require ''../../protobuf/riakprotobuf'') ''getCodeFor'' [StringLit ''RpbGetResp'']),
     VarDecl ''RiakMeta'' (require ''./riakmeta''),
     VarDecl ''KvResponseBase'' (require ''./kvresponsebase''),
     VarDecl ''inherits'' (Member (require ''util'') ''inherits''),
     VarDecl ''Joi'' (require ''joi''),
     FunctionDecl ''FetchValue'',
     AssignMember (Ident ''FetchValue'') ''prototype'' (ObjectLit [
       (''getRiakMessage'', FunctionExpr),
       (''getExpectedResponseCode'', FunctionExpr),
       (''onSuccess'', FunctionExpr),
       (''onRiakError'', FunctionExpr),
       (''onError'', FunctionExpr)]),
     VarDecl ''schema'' schema_init,
     FunctionDecl ''Builder'',
     AssignMember (Ident ''Builder'') ''prototype'' (ObjectLit [
       (''withBucket'', FunctionExpr),
       (''withBucketType'', FunctionExpr),
       (''withKey'', FunctionExpr),
       (''withR'', FunctionExpr),
       (''withPr'', FunctionExpr),
       (''withNotFoundOk'', FunctionExpr),
       (''withBasicQuorum'', FunctionExpr),
       (''withReturnDeletedVClock'', FunctionExpr),
       (''withHeadOnly'', FunctionExpr),
       (''withIfNotModified'', FunctionExpr),
       (''withTimeout'', FunctionExpr),
       (''withCallback'', FunctionExpr),
       (''build'', FunctionExpr)]),
     FunctionDecl ''Response'',
     ExprStmt (Call (Ident ''inherits'') [Ident ''Response'', Ident ''KvResponseBase'']),
     AssignMember (Member (Ident ''Response'') ''prototype'') ''isNotFound'' FunctionExpr,
     AssignMember (Member (Ident ''Response'') ''prototype'') ''isUnchanged'' FunctionExpr,
     AssignMember (Ident ''module'') ''exports'' (Ident ''FetchValue''),
     AssignMember (Member (Ident ''module'') ''exports'') ''Builder'' (Ident ''Builder'')]"

text \<open>
  \<^verbatim>\<open>require('.../fetchvalue')\<close> runs the module in the scope of its own declarations,
  the wrapper's parameters and the global names \<open>globals\<close>; an exception of the module
  is the exception of the \<^verbatim>\<open>require\<close>, and only a module that ran to its end has
  exported the constructor.
\<close>

definition load_fetchvalue :: "string list \<Rightarrow> jserror + unit" where
  "load_fetchvalue globals =
     run (declared fetchvalue_js @ module_wrapper @ globals) fetchvalue_js"

text \<open>
  The public way to a command: \<^verbatim>\<open>new (require('.../fetchvalue'))(options)\<close>.
\<close>

definition new_FetchValue ::
  "string list \<Rightarrow> ('o \<Rightarrow> jserror + 'cb fetch_options) \<Rightarrow> (string \<Rightarrow> Buffer) \<Rightarrow> int
     \<Rightarrow> (nat \<Rightarrow> byte) \<Rightarrow> 'o \<Rightarrow> jserror + 'cb fetch_value" where
  "new_FetchValue globals Joi_validate Buffer_of requestCode mem options' =
     (case load_fetchvalue globals of
        Inl err \<Rightarrow> Inl err
      | Inr u \<Rightarrow> FetchValue Joi_validate Buffer_of requestCode mem options')"

section \<open>Example data\<close>

text \<open>
  A small command to run the theorems on: bucket \<^verbatim>\<open>'b'\<close> of type \<^verbatim>\<open>'t'\<close>, key
  \<^verbatim>\<open>'k'\<close>, callback number 7, request code 9, header bytes allocated from memory full
  of \<^verbatim>\<open>0xAA\<close>, and an encoder that writes the bucket and the key one after the other.
\<close>

definition example_options :: "nat fetch_options" where
  "example_options =
     \<lparr>opt_bucket = ''b'', opt_bucketType = ''t'', opt_key = ''k'', opt_r = Some 2,
      opt_pr = None, opt_notFoundOk = None, opt_useBasicQuorum = None,
      opt_returnDeletedVClock = Some False, opt_headOnly = Some False,
      opt_ifNotModified = Some None, opt_timeout = Some None, opt_callback = 7\<rparr>"

definition example_Buffer_of :: "string \<Rightarrow> Buffer" where
  "example_Buffer_of str = map (\<lambda>c. of_nat (of_char c)) str"

definition example_encode :: "RpbGetReq \<Rightarrow> Buffer" where
  "example_encode pb =
     (case req_bucket pb of None \<Rightarrow> [] | Some b \<Rightarrow> b) @
     (case req_key pb of None \<Rightarrow> [] | Some k \<Rightarrow> k)"

definition example_fetch :: "nat fetch_value" where
  "example_fetch =
     \<lparr>protobuf =
        \<lparr>req_bucket = Some [98], req_type = Some [116], req_key = Some [107],
         req_r = Some 2, req_pr = None, req_notfound_ok = None, req_basic_quorum = None,
         req_deletedvclock = Some False, req_head = Some False, req_if_modified = None,
         req_timeout = None\<rparr>,
      callback = 7, bucket = ''b'', key = ''k'', bucketType = ''t'', streaming = False,
      header = [0xAA, 0xAA, 0xAA, 0xAA, 9], remainingTries = 1\<rparr>"

text \<open>
  A ListBuckets command that accumulates, three frames that are not the last (two without
  the flag, one with \<^verbatim>\<open>done = false\<close>) and the frame that ends the listing; names
  are decoded byte by byte.
\<close>

definition example_list_options :: list_raw_options where
  "example_list_options =
     \<lparr>raw_allowListing = Some True, raw_bucketType = None, raw_stream = Some False,
      raw_timeout = None\<rparr>"

definition example_list_buckets :: "nat list_buckets" where
  "example_list_buckets =
     \<lparr>options = \<lparr>allowListing = True, list_bucketType = ''default'', stream = False,
                  timeout = None\<rparr>,
      list_callback = 7, buckets = Some []\<rparr>"

definition example_frames :: "RpbListBucketsResp list" where
  "example_frames =
     [\<lparr>resp_buckets = [[97], [98]], resp_done = None\<rparr>,
      \<lparr>resp_buckets = [], resp_done = Some False\<rparr>,
      \<lparr>resp_buckets = [[99]], resp_done = None\<rparr>]"

definition example_last_frame :: RpbListBucketsResp where
  "example_last_frame = \<lparr>resp_buckets = [[100]], resp_done = Some True\<rparr>"

definition example_toString :: "Buffer \<Rightarrow> string" where
  "example_toString buf = map (\<lambda>b. char_of (unat b)) buf"

text \<open>The global names of a Node.js process that no module has added to.\<close>

definition node_globals :: "string list" where
  "node_globals =
     [''global'', ''process'', ''Buffer'', ''console'', ''setTimeout'', ''clearTimeout'',
      ''setInterval'', ''clearInterval'', ''setImmediate'', ''clearImmediate'',
      ''Object'', ''Function'', ''Array'', ''String'', ''Number'', ''Boolean'', ''Date'',
      ''Math'', ''JSON'', ''RegExp'', ''Error'', ''undefined'', ''NaN'', ''Infinity'']"

section \<open>Properties of FetchValue\<close>

subsection \<open>The outgoing frame\<close>

lemma be32_combine:
  "v = q1 * 256 + r0 \<Longrightarrow> q1 = q2 * 256 + r1 \<Longrightarrow> q2 = q3 * 256 + r2 \<Longrightarrow>
     q3 * 16777216 + r2 * 65536 + r1 * 256 + r0 = (v::int)"
  by linarith

lemma be32_value:
  "v div 16777216 * 16777216 + v div 65536 mod 256 * 65536 + v div 256 mod 256 * 256
     + v mod 256 = (v::int)"
proof (rule be32_combine)
  show "v = v div 256 * 256 + v mod 256"
    by simp
  show "v div 256 = v div 65536 * 256 + v div 256 mod 256"
    using div_mult_mod_eq[of "v div 256" 256] by (simp add: zdiv_zmult2_eq[symmetric])
  show "v div 65536 = v div 16777216 * 256 + v div 65536 mod 256"
    using div_mult_mod_eq[of "v div 65536" 256] by (simp add: zdiv_zmult2_eq[symmetric])
qed

lemma list5: "length xs = 5 \<Longrightarrow> \<exists>a b c d e. xs = [a, b, c, d, e]"
  by (auto simp: length_Suc_conv numeral_eq_Suc)

lemma writeInt32BE_header:
  assumes "length buf = 5" "0 \<le> v" "v \<le> 0x7fffffff"
  shows "\<exists>hdr. writeInt32BE buf v 0 = Inr hdr \<and> length hdr = 5 \<and> hdr ! 4 = buf ! 4 \<and>
     uint (hdr ! 0) * 2 ^ 24 + uint (hdr ! 1) * 2 ^ 16 + uint (hdr ! 2) * 2 ^ 8 + uint (hdr ! 3) = v"
proof -
  obtain a b c d e where buf: "buf = [a, b, c, d, e]"
    using list5[OF assms(1)] by blast
  let ?hdr = "[word_of_int (v div 2 ^ 24), word_of_int (v div 2 ^ 16),
               word_of_int (v div 2 ^ 8), word_of_int v, e] :: Buffer"
  have w: "writeInt32BE buf v 0 = Inr ?hdr"
    using assms(2,3) by (simp add: buf writeInt32BE_def)
  have top: "v div 16777216 mod 256 = v div 16777216"
    using assms(2,3) by simp
  have "uint (?hdr ! 0) * 2 ^ 24 + uint (?hdr ! 1) * 2 ^ 16 + uint (?hdr ! 2) * 2 ^ 8
          + uint (?hdr ! 3) = v"
    by (simp add: uint_word_of_int top be32_value)
  moreover have "length ?hdr = 5" "?hdr ! 4 = buf ! 4"
    by (simp_all add: buf)
  ultimately show ?thesis
    using w by (intro exI[of _ ?hdr] conjI)
qed

lemma FetchValue_header:
  assumes "FetchValue Joi_validate Buffer_of requestCode mem opts = Inr self"
  shows "length (header self) = 5 \<and> uint (header self ! 4) = requestCode"
  using assms
  by (auto simp: FetchValue_def writeUInt8_def new_Buffer_def uint_word_of_int
      split: sum.splits if_splits)

lemma example_fetch_constructed:
  "FetchValue Inr example_Buffer_of 9 (\<lambda>i. 0xAA) example_options = Inr example_fetch"
  by (simp add: FetchValue_def writeUInt8_def new_Buffer_def build_protobuf_def
      set_if_present_def new_RpbGetReq_def example_options_def example_Buffer_of_def
      example_fetch_def upt_rec)

text \<open>
  Claim C1. A command built by the constructor, whose serialised request is short enough
  for the signed 32-bit length field (at most \<open>2\<^sup>3\<^sup>1 - 2\<close> bytes, more than a Node
  buffer of the time could hold), encodes to the serialised request as payload and a
  header of five bytes: the first four read, most significant byte first, as the payload
  length plus one, and the fifth is the request code.
\<close>

theorem getRiakMessage_frame:
  assumes "FetchValue Joi_validate Buffer_of requestCode mem opts = Inr self"
    and "int (length (encode (protobuf self))) + 1 \<le> 0x7fffffff"
  shows "\<exists>msg self'. getRiakMessage encode self = Inr (msg, self') \<and>
           msg_protobuf msg = encode (protobuf self) \<and>
           length (msg_header msg) = 5 \<and>
           uint (msg_header msg ! 0) * 2 ^ 24 + uint (msg_header msg ! 1) * 2 ^ 16
             + uint (msg_header msg ! 2) * 2 ^ 8 + uint (msg_header msg ! 3)
             = int (length (msg_protobuf msg)) + 1 \<and>
           uint (msg_header msg ! 4) = requestCode"
proof -
  let ?n = "int (length (encode (protobuf self))) + 1"
  from FetchValue_header[OF assms(1)]
  have len: "length (header self) = 5" and code: "uint (header self ! 4) = requestCode"
    by simp_all
  have "0 \<le> ?n" by simp
  from writeInt32BE_header[OF len this assms(2)]
  obtain hdr where hdr: "writeInt32BE (header self) ?n 0 = Inr hdr" "length hdr = 5"
    "hdr ! 4 = header self ! 4"
    "uint (hdr ! 0) * 2 ^ 24 + uint (hdr ! 1) * 2 ^ 16 + uint (hdr ! 2) * 2 ^ 8 + uint (hdr ! 3) = ?n"
    by blast
  show ?thesis
    using hdr code by (simp add: getRiakMessage_def Let_def)
qed

theorem getRiakMessage_frame_witness:
  "FetchValue Inr example_Buffer_of 9 (\<lambda>i. 0xAA) example_options = Inr example_fetch \<and>
   int (length (example_encode (protobuf example_fetch))) + 1 \<le> 0x7fffffff \<and>
   (\<exists>msg self'. getRiakMessage example_encode example_fetch = Inr (msg, self') \<and>
      msg_protobuf msg = [98, 107] \<and>
      length (msg_header msg) = 5 \<and>
      uint (msg_header msg ! 0) * 2 ^ 24 + uint (msg_header msg ! 1) * 2 ^ 16
        + uint (msg_header msg ! 2) * 2 ^ 8 + uint (msg_header msg ! 3) = 3 \<and>
      uint (msg_header msg ! 4) = 9)"
proof -
  have small: "int (length (example_encode (protobuf example_fetch))) + 1 \<le> 0x7fffffff"
    by (simp add: example_encode_def example_fetch_def)
  have payload: "example_encode (protobuf example_fetch) = [98, 107]"
    by (simp add: example_encode_def example_fetch_def)
  from getRiakMessage_frame[where encode = example_encode, OF example_fetch_constructed small]
  obtain msg self' where
    m: "getRiakMessage example_encode example_fetch = Inr (msg, self')"
      "msg_protobuf msg = example_encode (protobuf example_fetch)"
      "length (msg_header msg) = 5"
      "uint (msg_header msg ! 0) * 2 ^ 24 + uint (msg_header msg ! 1) * 2 ^ 16
        + uint (msg_header msg ! 2) * 2 ^ 8 + uint (msg_header msg ! 3)
        = int (length (msg_protobuf msg)) + 1"
      "uint (msg_header msg ! 4) = 9"
    by blast
  have three: "int (length (msg_protobuf msg)) + 1 = 3"
    by (simp add: m(2) payload)
  have "getRiakMessage example_encode example_fetch = Inr (msg, self') \<and>
      msg_protobuf msg = [98, 107] \<and>
      length (msg_header msg) = 5 \<and>
      uint (msg_header msg ! 0) * 2 ^ 24 + uint (msg_header msg ! 1) * 2 ^ 16
        + uint (msg_header msg ! 2) * 2 ^ 8 + uint (msg_header msg ! 3) = 3 \<and>
      uint (msg_header msg ! 4) = 9"
    using m(1) m(2)[unfolded payload] m(3) m(4)[unfolded three] m(5) by (intro conjI)
  then have "\<exists>msg self'. getRiakMessage example_encode example_fetch = Inr (msg, self') \<and>
      msg_protobuf msg = [98, 107] \<and>
      length (msg_header msg) = 5 \<and>
      uint (msg_header msg ! 0) * 2 ^ 24 + uint (msg_header msg ! 1) * 2 ^ 16
        + uint (msg_header msg ! 2) * 2 ^ 8 + uint (msg_header msg ! 3) = 3 \<and>
      uint (msg_header msg ! 4) = 9"
    by blast
  with example_fetch_constructed small show ?thesis
    by (intro conjI)
qed

lemma nth_update_total:
  "(xs[i := x]) ! j = (if i = j \<and> i < length xs then x else xs ! j)"
  by (cases "i < length xs") (auto simp: nth_list_update list_update_beyond not_less)

lemma update4_again:
  "xs[i := a, j := b, k := c, l := d, i := a, j := b, k := c, l := d]
     = xs[i := a, j := b, k := c, l := (d::'a)]"
  if "i \<noteq> j" "i \<noteq> k" "i \<noteq> l" "j \<noteq> k" "j \<noteq> l" "k \<noteq> l"
  using that by (intro nth_equalityI) (simp_all add: nth_update_total)

lemma writeInt32BE_again:
  assumes "writeInt32BE buf v offset = Inr hdr"
  shows "writeInt32BE hdr v offset = Inr hdr"
proof -
  from assms have ok: "\<not> (v > 0x7fffffff \<or> v < - 0x80000000)" "\<not> offset + 4 > length buf"
    and hdr: "hdr = buf[offset := word_of_int (v div 2 ^ 24),
                    offset + 1 := word_of_int (v div 2 ^ 16),
                    offset + 2 := word_of_int (v div 2 ^ 8),
                    offset + 3 := word_of_int v]"
    by (auto simp: writeInt32BE_def split: if_splits)
  have len: "length hdr = length buf" by (simp add: hdr)
  have "hdr[offset := word_of_int (v div 2 ^ 24),
                    offset + 1 := word_of_int (v div 2 ^ 16),
                    offset + 2 := word_of_int (v div 2 ^ 8),
                    offset + 3 := word_of_int v] = hdr"
    unfolding hdr by (rule update4_again) simp_all
  then show ?thesis
    using ok len by (simp add: writeInt32BE_def)
qed

text \<open>
  Claim C9. Encoding twice gives the same frame: when a call of \<open>getRiakMessage\<close>
  returns a message, leaving the command with its header written, the next call on that
  command returns the same header and payload bytes and leaves the command as it was.
\<close>

theorem getRiakMessage_twice:
  assumes "getRiakMessage encode self = Inr (msg, self')"
  shows "getRiakMessage encode self' = Inr (msg, self')"
proof -
  let ?n = "int (length (encode (protobuf self))) + 1"
  from assms obtain hdr where w: "writeInt32BE (header self) ?n 0 = Inr hdr"
    and msg: "msg = \<lparr>msg_protobuf = encode (protobuf self), msg_header = hdr\<rparr>"
    and self': "self' = self\<lparr>header := hdr\<rparr>"
    by (auto simp: getRiakMessage_def Let_def split: sum.splits)
  from writeInt32BE_again[OF w] show ?thesis
    by (simp add: getRiakMessage_def Let_def msg self')
qed

theorem getRiakMessage_twice_witness:
  "getRiakMessage example_encode example_fetch
     = Inr (\<lparr>msg_protobuf = [98, 107], msg_header = [0, 0, 0, 3, 9]\<rparr>,
            example_fetch\<lparr>header := [0, 0, 0, 3, 9]\<rparr>) \<and>
   getRiakMessage example_encode (example_fetch\<lparr>header := [0, 0, 0, 3, 9]\<rparr>)
     = Inr (\<lparr>msg_protobuf = [98, 107], msg_header = [0, 0, 0, 3, 9]\<rparr>,
            example_fetch\<lparr>header := [0, 0, 0, 3, 9]\<rparr>)"
proof -
  have first: "getRiakMessage example_encode example_fetch
     = Inr (\<lparr>msg_protobuf = [98, 107], msg_header = [0, 0, 0, 3, 9]\<rparr>,
            example_fetch\<lparr>header := [0, 0, 0, 3, 9]\<rparr>)"
    by (simp add: getRiakMessage_def writeInt32BE_def example_encode_def example_fetch_def)
  from getRiakMessage_twice[OF first] first show ?thesis by simp
qed

text \<open>
  Claim C10. \<open>getExpectedResponseCode\<close> returns the code that the protobuf module
  registers for \<^verbatim>\<open>RpbGetResp\<close>, whatever the instance.
\<close>

theorem getExpectedResponseCode_constant:
  "getExpectedResponseCode getCodeFor self = getCodeFor ''RpbGetResp''"
  by (simp add: getExpectedResponseCode_def expectedCode_def)

subsection \<open>Responses and errors\<close>

text \<open>
  Where \<open>onSuccess\<close> returns, it returns \<^verbatim>\<open>true\<close>; and it returns for the
  \<^verbatim>\<open>null\<close> response and for every response that carries a vclock.
\<close>

lemma onSuccess_result_true:
  "onSuccess new_RiakMeta extractMetaFromRpbContent self rpbGetResp = Inr (calls, finished)
     \<Longrightarrow> finished"
  by (auto simp: onSuccess_def Let_def split: option.splits if_splits)

lemma onSuccess_returns_with_vclock:
  "vclock resp = Some vc \<Longrightarrow>
     \<exists>calls. onSuccess new_RiakMeta extractMetaFromRpbContent self (Some resp) = Inr (calls, True)"
  by (simp add: onSuccess_def Let_def)

text \<open>
  Claim C4. The claim asks for \<^verbatim>\<open>true\<close> on every decoded response. A response that
  is not \<^verbatim>\<open>null\<close> and has no vclock, such as the \<^verbatim>\<open>unchanged\<close> answer to a fetch
  with \<^verbatim>\<open>ifNotModified\<close>, makes \<open>onSuccess\<close> throw a \<^verbatim>\<open>TypeError\<close> instead:
  nothing is returned and the callback is not called, whatever the content list holds.
\<close>

theorem onSuccess_without_vclock:
  "onSuccess new_RiakMeta extractMetaFromRpbContent self (Some \<lparr>content = cs, vclock = None\<rparr>)
     = Inl (TypeError ''Cannot read property toBuffer of null'')"
  by (simp add: onSuccess_def Let_def)

text \<open>
  Claim C8. On the \<^verbatim>\<open>null\<close> response the callback is called once, with \<^verbatim>\<open>null\<close>
  as the error and a response that is not found, not unchanged and has no values.
\<close>

theorem onSuccess_null_response:
  "\<exists>response. onSuccess new_RiakMeta extractMetaFromRpbContent self None
       = Inr ([(callback self, [JNull, JResponse response])], True) \<and>
     isNotFound response \<and> \<not> isUnchanged response \<and> resp_values response = []"
  by (simp add: onSuccess_def new_Response_def isNotFound_def isUnchanged_def)

text \<open>
  Claim C5. On an error response \<open>onRiakError\<close> calls the callback once, with the
  decoded message of the error as the error argument and \<^verbatim>\<open>null\<close> as the result.
\<close>

theorem onRiakError_callback:
  "onRiakError toString_utf8 self rpbErrorResp
     = [(callback self, [JString (toString_utf8 (errmsg rpbErrorResp)), JNull])]"
  by (simp add: onRiakError_def onError_def)

text \<open>
  The loop of \<open>onSuccess\<close> leaves one value/meta pair per content entry, in order,
  and for a response with content the callback gets \<^verbatim>\<open>null\<close> and a response made of
  those pairs.
\<close>

lemma fill_values_eq:
  "i \<le> length cs \<Longrightarrow> length vals = length cs \<Longrightarrow>
     fill_values ex self cs vc i vals =
       take i vals @
       map (\<lambda>c. Some \<lparr>obj_value = content_value c,
                        obj_meta = ex c vc (bucketType self) (bucket self) (key self)\<rparr>)
           (drop i cs)"
proof (induction ex self cs vc i vals rule: fill_values.induct)
  case (1 ex self cs vc i vals)
  let ?pair = "\<lambda>c. Some \<lparr>obj_value = content_value c,
                          obj_meta = ex c vc (bucketType self) (bucket self) (key self)\<rparr>"
  show ?case
  proof (cases "i < length cs")
    case True
    let ?vals = "vals[i := ?pair (cs ! i)]"
    have "fill_values ex self cs vc i vals = fill_values ex self cs vc (Suc i) ?vals"
      using True by (subst fill_values.simps) (simp add: Let_def)
    also have "\<dots> = take (Suc i) ?vals @ map ?pair (drop (Suc i) cs)"
      using True "1.prems" by (intro "1.IH") simp_all
    also have "take (Suc i) ?vals = take i vals @ [?pair (cs ! i)]"
      using True "1.prems" by (simp add: take_Suc_conv_app_nth)
    also have "(take i vals @ [?pair (cs ! i)]) @ map ?pair (drop (Suc i) cs)
                 = take i vals @ map ?pair (drop i cs)"
      using True by (simp add: Cons_nth_drop_Suc[symmetric])
    finally show ?thesis .
  next
    case False
    with "1.prems" show ?thesis by (subst fill_values.simps) simp
  qed
qed

lemma onSuccess_found:
  assumes "content resp \<noteq> []" "vclock resp = Some vc"
  shows "onSuccess new_RiakMeta ex self (Some resp) =
       Inr ([(callback self,
              [JNull,
               JResponse (new_Response False False
                 (map (\<lambda>c. Some \<lparr>obj_value = content_value c,
                                  obj_meta = ex c vc (bucketType self) (bucket self)
                                               (key self)\<rparr>)
                      (content resp)))])],
            True)"
  using assms by (simp add: onSuccess_def Let_def fill_values_eq new_Array_def)

text \<open>
  Claim C2. The claim asks for \<^verbatim>\<open>null\<close> and a response in every case. For a response
  with a vclock whose content list is empty (a tombstone) \<open>onSuccess\<close> calls the
  callback with three arguments instead: \<^verbatim>\<open>false\<close>, \<^verbatim>\<open>false\<close> and the array holding
  the one deleted object, which are the arguments meant for the response's constructor.
\<close>

theorem onSuccess_tombstone:
  "onSuccess new_RiakMeta extractMetaFromRpbContent self
       (Some \<lparr>content = [], vclock = Some vc\<rparr>)
     = Inr ([(callback self,
              [JBool False, JBool False,
               JArray [Some \<lparr>obj_value = [],
                             obj_meta = new_RiakMeta\<lparr>isTombstone := True, meta_key := key self,
                               meta_bucket := bucket self, meta_bucketType := bucketType self\<rparr>\<rparr>]])],
            True)"
  by (simp add: onSuccess_def Let_def)

section \<open>Properties of ListBuckets\<close>

subsection \<open>The decoding loop and one call of \<open>onSuccess\<close>\<close>

lemma decode_buckets_eq:
  "i \<le> length bs \<Longrightarrow> length out = length bs \<Longrightarrow>
     decode_buckets t bs i out = take i out @ map (\<lambda>b. Some (t b)) (drop i bs)"
proof (induction t bs i out rule: decode_buckets.induct)
  case (1 t bs i out)
  show ?case
  proof (cases "i < length bs")
    case True
    let ?out = "out[i := Some (t (bs ! i))]"
    have "decode_buckets t bs i out = decode_buckets t bs (Suc i) ?out"
      using True by (subst decode_buckets.simps) simp
    also have "\<dots> = take (Suc i) ?out @ map (\<lambda>b. Some (t b)) (drop (Suc i) bs)"
      using True "1.prems" by (intro "1.IH") simp_all
    also have "take (Suc i) ?out = take i out @ [Some (t (bs ! i))]"
      using True "1.prems" by (simp add: take_Suc_conv_app_nth)
    also have "(take i out @ [Some (t (bs ! i))]) @ map (\<lambda>b. Some (t b)) (drop (Suc i) bs)
                 = take i out @ map (\<lambda>b. Some (t b)) (drop i bs)"
      using True by (simp add: Cons_nth_drop_Suc[symmetric])
    finally show ?thesis .
  next
    case False
    with "1.prems" show ?thesis by (subst decode_buckets.simps) simp
  qed
qed

lemma onSuccess_stream:
  assumes "stream (options self)"
  shows "ListBuckets_onSuccess t self frame =
           Inr (resp_done frame,
                [(list_callback self,
                  [LNull, LResponse \<lparr>res_buckets = map (\<lambda>b. Some (t b)) (resp_buckets frame),
                                      res_done = resp_done frame\<rparr>])],
                self)"
  using assms
  by (simp add: ListBuckets_onSuccess_def Let_def decode_buckets_eq new_Array_def)

lemma onSuccess_accumulate:
  assumes "\<not> stream (options self)" "buckets self = Some acc"
  shows "ListBuckets_onSuccess t self frame =
           Inr (resp_done frame,
                (if truthy (resp_done frame)
                 then [(list_callback self,
                        [LNull, LResponse \<lparr>res_buckets = acc @ map (\<lambda>b. Some (t b)) (resp_buckets frame),
                                            res_done = resp_done frame\<rparr>])]
                 else []),
                self\<lparr>buckets := Some (acc @ map (\<lambda>b. Some (t b)) (resp_buckets frame))\<rparr>)"
  using assms
  by (simp add: ListBuckets_onSuccess_def Let_def decode_buckets_eq new_Array_def)



lemma deliver_undone:
  assumes "\<not> stream (options self)" "buckets self = Some acc"
    and "\<forall>f \<in> set fs. \<not> truthy (resp_done f)"
  shows "deliver t self fs =
           Inr ([], self\<lparr>buckets :=
                  Some (acc @ concat (map (\<lambda>f. map (\<lambda>b. Some (t b)) (resp_buckets f)) fs))\<rparr>)"
  using assms
proof (induction fs arbitrary: self acc)
  case Nil
  then show ?case by simp
next
  case (Cons f fs)
  let ?self = "self\<lparr>buckets := Some (acc @ map (\<lambda>b. Some (t b)) (resp_buckets f))\<rparr>"
  have step: "ListBuckets_onSuccess t self f = Inr (resp_done f, [], ?self)"
    using onSuccess_accumulate[OF Cons.prems(1,2), of t f] Cons.prems(3) by simp
  have "deliver t ?self fs =
          Inr ([], ?self\<lparr>buckets := Some ((acc @ map (\<lambda>b. Some (t b)) (resp_buckets f))
              @ concat (map (\<lambda>f. map (\<lambda>b. Some (t b)) (resp_buckets f)) fs))\<rparr>)"
    using Cons.prems by (intro Cons.IH) simp_all
  then show ?case
    using step Cons.prems(3) by simp
qed

lemma deliver_snoc:
  assumes "\<forall>f \<in> set fs. \<not> truthy (resp_done f)"
    and "deliver t self fs = Inr ([], mid)"
    and "ListBuckets_onSuccess t mid l = Inr (d, calls, fin)"
  shows "deliver t self (fs @ [l]) = Inr (calls, fin)"
  using assms
proof (induction fs arbitrary: self)
  case Nil
  then show ?case by simp
next
  case (Cons f fs)
  from Cons.prems(2) obtain d' calls' self' where
    step: "ListBuckets_onSuccess t self f = Inr (d', calls', self')"
    by (cases "ListBuckets_onSuccess t self f") auto
  have undone: "\<not> truthy d'"
  proof
    assume "truthy d'"
    moreover have "d' = resp_done f"
      using step by (auto simp: ListBuckets_onSuccess_def Let_def split: if_splits option.splits)
    ultimately show False using Cons.prems(1) by simp
  qed
  from Cons.prems(2) step undone obtain calls'' where
    rest: "deliver t self' fs = Inr (calls'', mid)" and nil: "calls' @ calls'' = []"
    by (auto split: sum.splits)
  from nil have "calls' = []" "calls'' = []" by simp_all
  with rest have "deliver t self' (fs @ [l]) = Inr (calls, fin)"
    using Cons.prems(1,3) by (intro Cons.IH) simp_all
  then show ?case
    using step undone \<open>calls' = []\<close> by simp
qed

lemma ListBuckets_not_allowed:
  "raw_allowListing opts \<noteq> Some True \<Longrightarrow> ListBuckets opts cb = Inl ListError"
  by (auto simp: ListBuckets_def validateOptions_def schema_def Let_def split: option.splits)

lemma ListBuckets_ok:
  "ListBuckets opts cb = Inr self \<Longrightarrow>
     list_callback self = cb \<and> options self = schema opts \<and>
     buckets self = (if stream (options self) then None else Some [])"
  by (auto simp: ListBuckets_def validateOptions_def Let_def split: if_splits)

lemma reachable_buckets:
  "reachable t self \<Longrightarrow> stream (options self) \<or> buckets self \<noteq> None"
proof (induction rule: reachable.induct)
  case (constructed options' callback' self)
  then show ?case
    using ListBuckets_ok[OF constructed] by (cases "stream (options self)") simp_all
next
  case (handled self frame finished calls self')
  show ?case
  proof (cases "stream (options self)")
    case True
    with handled.hyps(2) show ?thesis
      by (simp add: onSuccess_stream)
  next
    case False
    with handled.IH obtain acc where "buckets self = Some acc" by auto
    from onSuccess_accumulate[OF False this, of t frame] handled.hyps(2)
    show ?thesis by auto
  qed
qed

lemma example_list_buckets_constructed:
  "ListBuckets example_list_options 7 = Inr example_list_buckets"
  by (simp add: ListBuckets_def validateOptions_def schema_def example_list_options_def
      example_list_buckets_def)

lemma example_names:
  "map Some (concat (map (\<lambda>f. map example_toString (resp_buckets f))
      (example_frames @ [example_last_frame])))
     = [Some ''a'', Some ''b'', Some ''c'', Some ''d'']"
proof -
  have "char_of (97::nat) = CHR ''a''" "char_of (98::nat) = CHR ''b''"
    "char_of (99::nat) = CHR ''c''" "char_of (100::nat) = CHR ''d''"
    by code_simp+
  then show ?thesis
    by (simp add: example_frames_def example_last_frame_def example_toString_def)
qed

subsection \<open>The done flag decides\<close>

text \<open>
  Claim C3. In every state the command can be in, \<open>onSuccess\<close> returns (it does not
  throw) and the value it returns is the \<^verbatim>\<open>done\<close> flag of the frame it was given: the
  exchange is over exactly when the frame says so.
\<close>

theorem ListBuckets_onSuccess_done:
  assumes "reachable toString_utf8 self"
  shows "\<exists>calls self'. ListBuckets_onSuccess toString_utf8 self frame
           = Inr (resp_done frame, calls, self')"
proof (cases "stream (options self)")
  case True
  then show ?thesis by (simp add: onSuccess_stream)
next
  case False
  with reachable_buckets[OF assms] obtain acc where "buckets self = Some acc" by auto
  from onSuccess_accumulate[OF False this, of toString_utf8 frame]
  show ?thesis by simp
qed

theorem ListBuckets_onSuccess_done_witness:
  "reachable example_toString example_list_buckets \<and>
   (\<exists>calls self'. ListBuckets_onSuccess example_toString example_list_buckets example_last_frame
      = Inr (Some True, calls, self'))"
proof -
  have r: "reachable example_toString example_list_buckets"
    by (rule reachable.constructed[OF example_list_buckets_constructed])
  have "resp_done example_last_frame = Some True"
    by (simp add: example_last_frame_def)
  with ListBuckets_onSuccess_done[OF r, of example_last_frame] r
  show ?thesis by simp
qed

subsection \<open>Accumulating the listing\<close>

text \<open>
  Claim C7. A command built with \<^verbatim>\<open>stream\<close> false receives frames none of which has
  \<^verbatim>\<open>done\<close> set, and then a frame with \<^verbatim>\<open>done = true\<close>. The earlier frames
  cause no call of the callback; the last one causes exactly one, with \<^verbatim>\<open>null\<close> and
  the names of all frames, in the order they arrived, with \<^verbatim>\<open>done = true\<close>; that
  call is all the callback sees of the whole exchange. And the constructor throws
  \<^verbatim>\<open>ListError\<close> whenever \<^verbatim>\<open>allowListing\<close> is not \<^verbatim>\<open>true\<close>.
\<close>

theorem ListBuckets_accumulate:
  "(ListBuckets opts cb = Inr self \<and> \<not> stream (options self) \<and>
      (\<forall>f \<in> set frames. \<not> truthy (resp_done f)) \<and> resp_done final = Some True
    \<longrightarrow> (\<exists>mid fin.
           deliver toString_utf8 self frames = Inr ([], mid) \<and>
           ListBuckets_onSuccess toString_utf8 mid final =
             Inr (Some True,
                  [(cb, [LNull, LResponse
                     \<lparr>res_buckets = map Some (concat (map (\<lambda>f. map toString_utf8 (resp_buckets f))
                                                        (frames @ [final]))),
                      res_done = Some True\<rparr>])],
                  fin) \<and>
           deliver toString_utf8 self (frames @ [final]) =
             Inr ([(cb, [LNull, LResponse
                     \<lparr>res_buckets = map Some (concat (map (\<lambda>f. map toString_utf8 (resp_buckets f))
                                                        (frames @ [final]))),
                      res_done = Some True\<rparr>])],
                  fin))) \<and>
   (raw_allowListing opts' \<noteq> Some True \<longrightarrow> ListBuckets opts' cb' = Inl ListError)"
proof (intro conjI impI)
  assume h: "ListBuckets opts cb = Inr self \<and> \<not> stream (options self) \<and>
      (\<forall>f \<in> set frames. \<not> truthy (resp_done f)) \<and> resp_done final = Some True"
  let ?names = "\<lambda>f. map (\<lambda>b. Some (toString_utf8 b)) (resp_buckets f)"
  let ?all = "map Some (concat (map (\<lambda>f. map toString_utf8 (resp_buckets f)) (frames @ [final])))"
  from h ListBuckets_ok[of opts cb self]
  have cb: "list_callback self = cb" and acc: "buckets self = Some []"
    and ns: "\<not> stream (options self)"
    and undone: "\<forall>f \<in> set frames. \<not> truthy (resp_done f)"
    and last: "resp_done final = Some True"
    by simp_all
  define mid where "mid = self\<lparr>buckets := Some ([] @ concat (map ?names frames))\<rparr>"
  have d1: "deliver toString_utf8 self frames = Inr ([], mid)"
    unfolding mid_def by (rule deliver_undone[OF ns acc undone])
  have all: "?all = concat (map ?names frames) @ ?names final"
    by (simp add: map_concat comp_def)
  have ns': "\<not> stream (options mid)" and acc': "buckets mid = Some (concat (map ?names frames))"
    and cb': "list_callback mid = cb"
    using ns cb by (simp_all add: mid_def)
  define fin where "fin = mid\<lparr>buckets := Some ?all\<rparr>"
  have d2: "ListBuckets_onSuccess toString_utf8 mid final =
      Inr (Some True, [(cb, [LNull, LResponse \<lparr>res_buckets = ?all, res_done = Some True\<rparr>])], fin)"
    unfolding fin_def all
    using onSuccess_accumulate[OF ns' acc', of toString_utf8 final] last
    by (simp add: cb' truthy_def)
  from deliver_snoc[OF undone d1 d2] d1 d2
  show "\<exists>mid fin.
           deliver toString_utf8 self frames = Inr ([], mid) \<and>
           ListBuckets_onSuccess toString_utf8 mid final =
             Inr (Some True,
                  [(cb, [LNull, LResponse \<lparr>res_buckets = ?all, res_done = Some True\<rparr>])],
                  fin) \<and>
           deliver toString_utf8 self (frames @ [final]) =
             Inr ([(cb, [LNull, LResponse \<lparr>res_buckets = ?all, res_done = Some True\<rparr>])],
                  fin)"
    by (intro exI[of _ mid] exI[of _ fin] conjI)
next
  assume "raw_allowListing opts' \<noteq> Some True"
  then show "ListBuckets opts' cb' = Inl ListError"
    by (rule ListBuckets_not_allowed)
qed

theorem ListBuckets_accumulate_witness:
  "ListBuckets example_list_options 7 = Inr example_list_buckets \<and>
   \<not> stream (options example_list_buckets) \<and>
   list_all (\<lambda>f. \<not> truthy (resp_done f)) example_frames \<and>
   resp_done example_last_frame = Some True \<and>
   (\<exists>mid fin.
      deliver example_toString example_list_buckets example_frames = Inr ([], mid) \<and>
      ListBuckets_onSuccess example_toString mid example_last_frame =
        Inr (Some True,
             [(7, [LNull, LResponse \<lparr>res_buckets = [Some ''a'', Some ''b'', Some ''c'', Some ''d''],
                                      res_done = Some True\<rparr>])],
             fin) \<and>
      deliver example_toString example_list_buckets (example_frames @ [example_last_frame]) =
        Inr ([(7, [LNull, LResponse \<lparr>res_buckets = [Some ''a'', Some ''b'', Some ''c'', Some ''d''],
                                       res_done = Some True\<rparr>])],
             fin)) \<and>
   raw_allowListing (example_list_options\<lparr>raw_allowListing := None\<rparr>) \<noteq> Some True \<and>
   ListBuckets (example_list_options\<lparr>raw_allowListing := None\<rparr>) (7::nat) = Inl ListError"
proof -
  have ns: "\<not> stream (options example_list_buckets)"
    by (simp add: example_list_buckets_def)
  have undone: "list_all (\<lambda>f. \<not> truthy (resp_done f)) example_frames"
    by (simp add: example_frames_def truthy_def)
  have last: "resp_done example_last_frame = Some True"
    by (simp add: example_last_frame_def)
  have no: "raw_allowListing (example_list_options\<lparr>raw_allowListing := None\<rparr>) \<noteq> Some True"
    by simp
  note inst = ListBuckets_accumulate[of example_list_options "7::nat" example_list_buckets
      example_frames example_last_frame example_toString
      "example_list_options\<lparr>raw_allowListing := None\<rparr>" "7::nat", unfolded example_names]
  from inst example_list_buckets_constructed ns undone last no
  show ?thesis
    unfolding list_all_iff by blast
qed

section \<open>Properties of the FetchValue module\<close>

text \<open>
  Claim C6. \<^verbatim>\<open>new (require('.../fetchvalue'))(options)\<close> throws a
  \<^verbatim>\<open>ReferenceError\<close> for \<^verbatim>\<open>joi\<close> whatever the options are, provided no global of
  that name exists: the initialiser of \<^verbatim>\<open>schema\<close> reads \<^verbatim>\<open>joi\<close>, which the module
  never declares (it declares \<^verbatim>\<open>Joi\<close>), so the module fails while it loads and never
  exports the constructor.
\<close>

theorem new_FetchValue_ReferenceError:
  assumes "''joi'' \<notin> set globals"
  shows "new_FetchValue globals Joi_validate Buffer_of requestCode mem options'
           = Inl (ReferenceError ''joi'')"
  using assms
  by (simp add: new_FetchValue_def load_fetchvalue_def fetchvalue_js_def schema_init_def
      module_wrapper_def method_call_def require_def)

theorem new_FetchValue_ReferenceError_witness:
  "''joi'' \<notin> set node_globals \<and>
   new_FetchValue node_globals Inr example_Buffer_of 9 (\<lambda>i. 0xAA) example_options
     = Inl (ReferenceError ''joi'')"
proof -
  have free: "''joi'' \<notin> set node_globals"
    by (simp add: node_globals_def)
  from new_FetchValue_ReferenceError[OF free, of Inr example_Buffer_of 9 "\<lambda>i. 0xAA" example_options]
    free
  show ?thesis by simp
qed

end
